theory Spec2Isabelle
  imports Main "HOL-Library.FSet" "HOL-Library.Char_ord" "HOL-Library.List_Lexorder"
begin

section \<open>Data model\<close>

text \<open>
  Colours are Python strings and a combination is a Python tuple of strings; a tuple is
  held as a list. Python integers are \<open>int\<close>. The exceptions that the modelled code can
  raise are values of \<open>py_error\<close>, and a function that can raise returns
  \<open>py_error + 'a\<close>, with \<open>Inl\<close> for the exception.
\<close>

datatype py_error = IndexError | KeyError | ValueError

type_synonym combinacion = "string list"

type_synonym contador = "string \<rightharpoonup> int"

definition COLORES :: "string list" where
  "COLORES = [''azul'', ''rojo'', ''blanco'', ''negro'', ''verde'', ''purpura'']"

text \<open>\<open>t[i]\<close> for a non-negative index: IndexError when out of range.\<close>

definition elemento :: "'a list \<Rightarrow> nat \<Rightarrow> py_error + 'a" where
  "elemento t i = (if i < length t then Inr (t ! i) else Inl IndexError)"

text \<open>\<open>{color: 0 for color in COLORES}\<close>\<close>

definition contador_cero :: contador where
  "contador_cero = map_of (map (\<lambda>color. (color, 0)) COLORES)"

text \<open>\<open>counter[color] += 1\<close>: KeyError when the key is absent.\<close>

definition sumar_uno :: "contador \<Rightarrow> string \<Rightarrow> py_error + contador" where
  "sumar_uno counter color =
     (case counter color of
        None \<Rightarrow> Inl KeyError
      | Some n \<Rightarrow> Inr (counter(color \<mapsto> n + 1)))"

text \<open>\<open>counter[color]\<close>\<close>

definition leer :: "contador \<Rightarrow> string \<Rightarrow> py_error + int" where
  "leer counter color = (case counter color of None \<Rightarrow> Inl KeyError | Some n \<Rightarrow> Inr n)"

section \<open>Feedback scorer\<close>

text \<open>
  The body \<open>for i in range(4): ...\<close> shared by \<open>evaluar_combinacion\<close>,
  \<open>_coincide_feedback\<close> and the inner loop of \<open>siguiente_combinacion\<close> (the source
  repeats it verbatim three times). The loop state is
  \<open>(pos_correctas, counter1, counter2)\<close>; the list argument holds the indices still to
  visit.
\<close>

fun recorrer_posiciones ::
  "combinacion \<Rightarrow> combinacion \<Rightarrow> nat list \<Rightarrow> int \<times> contador \<times> contador
     \<Rightarrow> py_error + int \<times> contador \<times> contador" where
  "recorrer_posiciones c1 c2 [] acc = Inr acc"
| "recorrer_posiciones c1 c2 (i # resto) (pos_correctas, counter1, counter2) =
     (case elemento c1 i of Inl e \<Rightarrow> Inl e | Inr x \<Rightarrow>
      case elemento c2 i of Inl e \<Rightarrow> Inl e | Inr y \<Rightarrow>
      if x = y then recorrer_posiciones c1 c2 resto (pos_correctas + 1, counter1, counter2)
      else
        case sumar_uno counter1 x of Inl e \<Rightarrow> Inl e | Inr counter1' \<Rightarrow>
        case sumar_uno counter2 y of Inl e \<Rightarrow> Inl e | Inr counter2' \<Rightarrow>
        recorrer_posiciones c1 c2 resto (pos_correctas, counter1', counter2'))"

text \<open>\<open>sum(min(counter1[color], counter2[color]) for color in colores)\<close>\<close>

fun sumar_minimos :: "contador \<Rightarrow> contador \<Rightarrow> string list \<Rightarrow> py_error + int" where
  "sumar_minimos counter1 counter2 [] = Inr 0"
| "sumar_minimos counter1 counter2 (color # resto) =
     (case leer counter1 color of Inl e \<Rightarrow> Inl e | Inr a \<Rightarrow>
      case leer counter2 color of Inl e \<Rightarrow> Inl e | Inr b \<Rightarrow>
      case sumar_minimos counter1 counter2 resto of Inl e \<Rightarrow> Inl e | Inr s \<Rightarrow>
      Inr (min a b + s))"

text \<open>\<open>MastermindSolver.evaluar_combinacion\<close>\<close>

definition evaluar_combinacion :: "combinacion \<Rightarrow> combinacion \<Rightarrow> py_error + int \<times> int" where
  "evaluar_combinacion combinacion combinacion_secreta =
     (case recorrer_posiciones combinacion combinacion_secreta [0, 1, 2, 3]
             (0, contador_cero, contador_cero) of
        Inl e \<Rightarrow> Inl e
      | Inr (pos_correctas, counter1, counter2) \<Rightarrow>
          (case sumar_minimos counter1 counter2 COLORES of
             Inl e \<Rightarrow> Inl e
           | Inr colores_comunes \<Rightarrow> Inr (pos_correctas, colores_comunes)))"

text \<open>\<open>MastermindKB._coincide_feedback\<close>\<close>

definition coincide_feedback ::
  "combinacion \<Rightarrow> combinacion \<Rightarrow> int \<Rightarrow> int \<Rightarrow> py_error + bool" where
  "coincide_feedback combinacion1 combinacion2 posiciones_correctas colores_correctos =
     (case recorrer_posiciones combinacion1 combinacion2 [0, 1, 2, 3]
             (0, contador_cero, contador_cero) of
        Inl e \<Rightarrow> Inl e
      | Inr (pos_correctas, counter1, counter2) \<Rightarrow>
          (case sumar_minimos counter1 counter2 COLORES of
             Inl e \<Rightarrow> Inl e
           | Inr colores_comunes \<Rightarrow>
               Inr (pos_correctas = posiciones_correctas \<and> colores_comunes = colores_correctos)))"

subsection \<open>The score as the specification words it\<close>

text \<open>
  A code is a sequence of exactly 4 symbols of the alphabet. The reference score counts
  the positions where the two codes agree, and sums, over the alphabet, the smaller of
  the two occurrence counts among the symbols left at the positions that disagree.
\<close>

definition es_codigo :: "combinacion \<Rightarrow> bool" where
  "es_codigo c \<longleftrightarrow> length c = 4 \<and> list_all (\<lambda>x. x \<in> set COLORES) c"

definition exact_matches :: "combinacion \<Rightarrow> combinacion \<Rightarrow> int" where
  "exact_matches guess target = int (card {i \<in> {0..<4}. guess ! i = target ! i})"

definition leftover :: "combinacion \<Rightarrow> combinacion \<Rightarrow> string list" where
  "leftover guess target = map (\<lambda>i. guess ! i) (filter (\<lambda>i. guess ! i \<noteq> target ! i) [0..<4])"

definition color_matches :: "combinacion \<Rightarrow> combinacion \<Rightarrow> int" where
  "color_matches guess target =
     (\<Sum>s\<leftarrow>COLORES. int (min (count_list (leftover guess target) s)
                             (count_list (leftover target guess) s)))"

definition score :: "combinacion \<Rightarrow> combinacion \<Rightarrow> int \<times> int" where
  "score guess target = (exact_matches guess target, color_matches guess target)"

section \<open>Knowledge base\<close>

text \<open>
  \<open>MastermindKB\<close>. The fields \<open>knowledge\<close> and \<open>symbols\<close> are written by the
  constructor and read by no method below (\<open>_agregar_restriccion_logica\<close> is \<open>pass\<close>),
  so the record keeps the two fields the methods use. \<open>combinaciones_posibles\<close> is a
  Python set, here a finite set.
\<close>

record MastermindKB =
  todas_combinaciones :: "combinacion list"
  combinaciones_posibles :: "combinacion fset"

text \<open>\<open>list(itertools.product(COLORES, repeat=4))\<close>: the last position varies fastest.\<close>

definition producto_colores :: "combinacion list" where
  "producto_colores = product_lists [COLORES, COLORES, COLORES, COLORES]"

text \<open>\<open>MastermindKB()\<close>: the default factory followed by \<open>__post_init__\<close>.\<close>

definition MastermindKB_nuevo :: MastermindKB where
  "MastermindKB_nuevo =
     \<lparr>todas_combinaciones = producto_colores,
      combinaciones_posibles = fset_of_list producto_colores\<rparr>"

text \<open>
  \<open>list(s)\<close> and \<open>for x in s\<close> on a set. Python's order follows the hashes of the
  strings; the model enumerates in sorted order. Wherever the program picks an element
  out of such a list, the pick is made by the random source below, which reaches every
  element whatever the enumeration.
\<close>

definition lista_de :: "combinacion fset \<Rightarrow> combinacion list" where
  "lista_de s = sorted_list_of_fset s"

text \<open>The two \<open>messagebox.showwarning\<close> calls of \<open>actualizar_con_feedback\<close>.\<close>

datatype advertencia = FeedbackInvalido | SinCoincidencias

text \<open>
  The loop \<open>for candidato in self.combinaciones_posibles: if self._coincide_feedback(...):
  nuevas_combinaciones.add(candidato)\<close>; the result lists the candidates added.
\<close>

fun filtrar_candidatos ::
  "combinacion \<Rightarrow> int \<Rightarrow> int \<Rightarrow> combinacion list \<Rightarrow> py_error + combinacion list" where
  "filtrar_candidatos combinacion posiciones_correctas colores_correctos [] = Inr []"
| "filtrar_candidatos combinacion posiciones_correctas colores_correctos (candidato # resto) =
     (case coincide_feedback combinacion candidato posiciones_correctas colores_correctos of
        Inl e \<Rightarrow> Inl e
      | Inr coincide \<Rightarrow>
          (case filtrar_candidatos combinacion posiciones_correctas colores_correctos resto of
             Inl e \<Rightarrow> Inl e
           | Inr nuevas \<Rightarrow> Inr (if coincide then candidato # nuevas else nuevas)))"

text \<open>
  \<open>MastermindKB.actualizar_con_feedback\<close>. The method returns nothing; the result is the
  warning shown, if any, and the knowledge base after the call.
\<close>

definition actualizar_con_feedback ::
  "MastermindKB \<Rightarrow> combinacion \<Rightarrow> int \<Rightarrow> int \<Rightarrow> py_error + advertencia option \<times> MastermindKB" where
  "actualizar_con_feedback kb combinacion posiciones_correctas colores_correctos =
     (if posiciones_correctas + colores_correctos > 4 then Inr (Some FeedbackInvalido, kb)
      else
        case filtrar_candidatos combinacion posiciones_correctas colores_correctos
               (lista_de (combinaciones_posibles kb)) of
          Inl e \<Rightarrow> Inl e
        | Inr nuevas \<Rightarrow>
            let nuevas_combinaciones = fset_of_list nuevas in
            if nuevas_combinaciones = {||} \<and> combinaciones_posibles kb \<noteq> {||}
            then Inr (Some SinCoincidencias, kb)
            else Inr (None, kb\<lparr>combinaciones_posibles := nuevas_combinaciones\<rparr>))"

definition tamano_espacio_busqueda :: "MastermindKB \<Rightarrow> int" where
  "tamano_espacio_busqueda kb = int (fcard (combinaciones_posibles kb))"

section \<open>Random source\<close>

text \<open>
  The state of Python's \<open>random\<close> module is a stream of naturals: a call reads the
  numbers it needs from the front and leaves the rest. Each number is reduced modulo the
  size of what is drawn from, so every stream is a behaviour of the module and every
  outcome the module can produce is the outcome of some stream.
\<close>

type_synonym fuente = "nat \<Rightarrow> nat"

definition avanzar :: "nat \<Rightarrow> fuente \<Rightarrow> fuente" where
  "avanzar k rng = (\<lambda>i. rng (i + k))"

text \<open>\<open>random.choice(seq)\<close>: IndexError on an empty sequence.\<close>

definition random_choice :: "'a list \<Rightarrow> fuente \<Rightarrow> py_error + 'a \<times> fuente" where
  "random_choice seq rng =
     (if seq = [] then Inl IndexError
      else Inr (seq ! (rng 0 mod length seq), avanzar 1 rng))"

text \<open>Successive draws without replacement: each draw indexes what is left of the pool.\<close>

fun elegir :: "nat list \<Rightarrow> 'a list \<Rightarrow> 'a list" where
  "elegir [] pool = []"
| "elegir (d # ds) pool =
     (if pool = [] then []
      else pool ! (d mod length pool)
             # elegir ds (take (d mod length pool) pool @ drop (Suc (d mod length pool)) pool))"

text \<open>\<open>random.sample(population, k)\<close> for \<open>k \<ge> 0\<close>: ValueError when the sample is larger
  than the population.\<close>

definition random_sample :: "'a list \<Rightarrow> nat \<Rightarrow> fuente \<Rightarrow> py_error + 'a list \<times> fuente" where
  "random_sample population k rng =
     (if k > length population then Inl ValueError
      else Inr (elegir (map rng [0..<k]) population, avanzar k rng))"

text \<open>\<open>tuple(random.choice(COLORES) for _ in range(n))\<close>\<close>

fun elegir_colores :: "nat \<Rightarrow> fuente \<Rightarrow> py_error + combinacion \<times> fuente" where
  "elegir_colores 0 rng = Inr ([], rng)"
| "elegir_colores (Suc n) rng =
     (case random_choice COLORES rng of
        Inl e \<Rightarrow> Inl e
      | Inr (color, rng1) \<Rightarrow>
          (case elegir_colores n rng1 of
             Inl e \<Rightarrow> Inl e
           | Inr (resto, rng2) \<Rightarrow> Inr (color # resto, rng2)))"

text \<open>
  \<open>next(iter(s))\<close> on a non-empty set: which element comes first depends on the hash
  order, so the source decides it too.
\<close>

definition primero_de :: "combinacion fset \<Rightarrow> fuente \<Rightarrow> py_error + combinacion \<times> fuente" where
  "primero_de s rng = random_choice (lista_de s) rng"

section \<open>Guess selector\<close>

type_synonym resultados = "int \<times> int \<rightharpoonup> int"

text \<open>
  The inner loop of \<open>siguiente_combinacion\<close> over the sampled candidates. Its scoring
  lines are those of \<open>evaluar_combinacion\<close>. The loop state is
  \<open>(max_conjunto_restante, resultados)\<close>.
\<close>

fun evaluar_candidatos ::
  "combinacion \<Rightarrow> combinacion list \<Rightarrow> int \<times> resultados \<Rightarrow> py_error + int \<times> resultados" where
  "evaluar_candidatos combinacion [] acc = Inr acc"
| "evaluar_candidatos combinacion (candidato # resto) (max_conjunto_restante, resultados) =
     (case evaluar_combinacion combinacion candidato of
        Inl e \<Rightarrow> Inl e
      | Inr feedback \<Rightarrow>
          let n = (case resultados feedback of None \<Rightarrow> 0 | Some v \<Rightarrow> v) + 1
          in evaluar_candidatos combinacion resto
               (max max_conjunto_restante n, resultados(feedback \<mapsto> n)))"

text \<open>
  The outer loop over \<open>combinaciones_a_evaluar\<close>. The loop state is
  \<open>(mejor_combinacion, mejor_puntuacion)\<close>; \<open>float('inf')\<close> is \<open>None\<close>.
\<close>

fun evaluar_propuestas ::
  "combinacion fset \<Rightarrow> combinacion list \<Rightarrow> combinacion option \<times> int option \<Rightarrow> fuente
     \<Rightarrow> py_error + (combinacion option \<times> int option) \<times> fuente" where
  "evaluar_propuestas posibles [] mejor rng = Inr (mejor, rng)"
| "evaluar_propuestas posibles (combinacion # resto) (mejor_combinacion, mejor_puntuacion) rng =
     (case random_sample (lista_de posibles) (min 50 (fcard posibles)) rng of
        Inl e \<Rightarrow> Inl e
      | Inr (muestra, rng1) \<Rightarrow>
          (case evaluar_candidatos combinacion muestra (0, Map.empty) of
             Inl e \<Rightarrow> Inl e
           | Inr (max_conjunto_restante, resultados) \<Rightarrow>
               if (case mejor_puntuacion of None \<Rightarrow> True
                   | Some m \<Rightarrow> max_conjunto_restante < m)
               then evaluar_propuestas posibles resto
                      (Some combinacion, Some max_conjunto_restante) rng1
               else evaluar_propuestas posibles resto
                      (mejor_combinacion, mejor_puntuacion) rng1))"

text \<open>
  \<open>MastermindKB.siguiente_combinacion\<close>. The warning dialog of the first branch is not
  part of the result.
\<close>

definition siguiente_combinacion ::
  "MastermindKB \<Rightarrow> fuente \<Rightarrow> py_error + combinacion \<times> fuente" where
  "siguiente_combinacion kb rng =
     (let posibles = combinaciones_posibles kb in
      if posibles = {||} then elegir_colores 4 rng
      else if fcard posibles = length (todas_combinaciones kb)
        then Inr ([''azul'', ''azul'', ''rojo'', ''verde''], rng)
      else if fcard posibles \<le> 2 then primero_de posibles rng
      else if fcard posibles \<le> 10 then random_choice (lista_de posibles) rng
      else
        case random_sample
               (if fcard posibles \<le> 50 then lista_de posibles else todas_combinaciones kb)
               (min 20 (fcard posibles)) rng of
          Inl e \<Rightarrow> Inl e
        | Inr (combinaciones_a_evaluar, rng1) \<Rightarrow>
            (case evaluar_propuestas posibles combinaciones_a_evaluar (None, None) rng1 of
               Inl e \<Rightarrow> Inl e
             | Inr ((mejor_combinacion, mejor_puntuacion), rng2) \<Rightarrow>
                 (case mejor_combinacion of
                    None \<Rightarrow> random_choice (lista_de posibles) rng2
                  | Some mejor \<Rightarrow> Inr (mejor, rng2))))"

section \<open>Solver\<close>

record MastermindSolver =
  kb :: MastermindKB
  intentos :: int
  historia_espacio_busqueda :: "int list"

text \<open>\<open>MastermindSolver()\<close>\<close>

definition MastermindSolver_nuevo :: MastermindSolver where
  "MastermindSolver_nuevo =
     \<lparr>kb = MastermindKB_nuevo, intentos = 0, historia_espacio_busqueda = []\<rparr>"

text \<open>The three assignments that open \<open>modo_automatico\<close>.\<close>

definition estado_inicial :: MastermindSolver where
  "estado_inicial =
     \<lparr>kb = MastermindKB_nuevo, intentos = 0,
      historia_espacio_busqueda = [tamano_espacio_busqueda MastermindKB_nuevo]\<rparr>"

text \<open>
  One pass through the body of \<open>while True\<close> in \<open>modo_automatico\<close>, on the solver and
  the random source: an exception, the returned pair \<open>(intentos, historia)\<close>, or the
  state at the top of the next pass.
\<close>

definition iteracion ::
  "combinacion \<Rightarrow> MastermindSolver \<times> fuente
     \<Rightarrow> py_error + (int \<times> int list) + MastermindSolver \<times> fuente" where
  "iteracion combinacion_secreta st =
     (case st of (s, rng) \<Rightarrow>
      let s1 = s\<lparr>intentos := intentos s + 1\<rparr> in
      case siguiente_combinacion (kb s1) rng of
        Inl e \<Rightarrow> Inl e
      | Inr (combinacion, rng1) \<Rightarrow>
          (case evaluar_combinacion combinacion combinacion_secreta of
             Inl e \<Rightarrow> Inl e
           | Inr (posiciones_correctas, colores_correctos) \<Rightarrow>
               if posiciones_correctas = 4
               then Inr (Inl (intentos s1, historia_espacio_busqueda s1))
               else
                 (case actualizar_con_feedback (kb s1) combinacion
                         posiciones_correctas colores_correctos of
                    Inl e \<Rightarrow> Inl e
                  | Inr (aviso, kb1) \<Rightarrow>
                      Inr (Inr (s1\<lparr>kb := kb1,
                                  historia_espacio_busqueda :=
                                    historia_espacio_busqueda s1
                                      @ [tamano_espacio_busqueda kb1]\<rparr>, rng1)))))"

text \<open>The loop has no iteration cap: a run that never returns is \<open>None\<close>.\<close>

partial_function (option) bucle_automatico ::
  "combinacion \<Rightarrow> MastermindSolver \<times> fuente \<Rightarrow> (py_error + int \<times> int list) option" where
  "bucle_automatico combinacion_secreta st =
     (case iteracion combinacion_secreta st of
        Inl e \<Rightarrow> Some (Inl e)
      | Inr (Inl resultado) \<Rightarrow> Some (Inr resultado)
      | Inr (Inr st1) \<Rightarrow> bucle_automatico combinacion_secreta st1)"

declare bucle_automatico.simps [code]

text \<open>\<open>MastermindSolver.modo_automatico\<close>\<close>

definition modo_automatico ::
  "combinacion \<Rightarrow> fuente \<Rightarrow> (py_error + int \<times> int list) option" where
  "modo_automatico combinacion_secreta rng =
     bucle_automatico combinacion_secreta (estado_inicial, rng)"

text \<open>The states at the top of the loop in a run of \<open>modo_automatico\<close>.\<close>

inductive alcanzable :: "combinacion \<Rightarrow> fuente \<Rightarrow> MastermindSolver \<times> fuente \<Rightarrow> bool"
  for combinacion_secreta :: combinacion and rng :: fuente where
  inicio: "alcanzable combinacion_secreta rng (estado_inicial, rng)"
| paso: "alcanzable combinacion_secreta rng st \<Longrightarrow>
         iteracion combinacion_secreta st = Inr (Inr st1) \<Longrightarrow>
         alcanzable combinacion_secreta rng st1"

text \<open>
  \<open>MastermindSolver.procesar_intento_tiempo_real\<close>: the value returned, the warning
  shown by the knowledge base, and the solver after the call.
\<close>

definition procesar_intento_tiempo_real ::
  "MastermindSolver \<Rightarrow> combinacion \<Rightarrow> int \<Rightarrow> int
     \<Rightarrow> py_error + bool \<times> advertencia option \<times> MastermindSolver" where
  "procesar_intento_tiempo_real s combinacion pos_correctas colores_correctos =
     (if pos_correctas = 4 then Inr (True, None, s)
      else
        case actualizar_con_feedback (kb s) combinacion pos_correctas colores_correctos of
          Inl e \<Rightarrow> Inl e
        | Inr (aviso, kb1) \<Rightarrow>
            Inr (False, aviso,
                 s\<lparr>kb := kb1,
                   historia_espacio_busqueda :=
                     historia_espacio_busqueda s @ [tamano_espacio_busqueda kb1]\<rparr>))"

section \<open>Parsing a combination\<close>

text \<open>
  A character is a code point below 256. \<open>es_espacio\<close> is \<open>str.isspace\<close> and
  \<open>minuscula\<close> is \<open>str.lower\<close> on that range.
\<close>

definition es_espacio :: "char \<Rightarrow> bool" where
  "es_espacio c \<longleftrightarrow>
     (of_char c :: nat) \<in> {9, 10, 11, 12, 13, 28, 29, 30, 31, 32, 133, 160}"

definition minuscula :: "char \<Rightarrow> char" where
  "minuscula c =
     (let n = (of_char c :: nat) in
      if (65 \<le> n \<and> n \<le> 90) \<or> (192 \<le> n \<and> n \<le> 222 \<and> n \<noteq> 215)
      then char_of (n + 32) else c)"

definition lower :: "string \<Rightarrow> string" where
  "lower s = map minuscula s"

definition strip :: "string \<Rightarrow> string" where
  "strip s = rev (dropWhile es_espacio (rev (dropWhile es_espacio s)))"

text \<open>\<open>s.split(sep)\<close> for a separator of one character: empty pieces are kept.\<close>

fun split_sep :: "char \<Rightarrow> string \<Rightarrow> string list" where
  "split_sep sep [] = [[]]"
| "split_sep sep (c # cs) =
     (if c = sep then [] # split_sep sep cs
      else (case split_sep sep cs of
              [] \<Rightarrow> [[c]]
            | w # ws \<Rightarrow> (c # w) # ws))"

text \<open>\<open>s.split()\<close>: the maximal runs of characters that are not whitespace.\<close>

function split_espacios :: "string \<Rightarrow> string list" where
  "split_espacios [] = []"
| "split_espacios (c # cs) =
     (if es_espacio c then split_espacios cs
      else (c # takeWhile (\<lambda>x. \<not> es_espacio x) cs)
             # split_espacios (dropWhile (\<lambda>x. \<not> es_espacio x) cs))"
  by pat_completeness auto
termination
  by (relation "measure length") (auto simp: less_Suc_eq_le length_dropWhile_le)

text \<open>The list \<open>colores\<close> built by the first four lines of
  \<open>convertir_entrada_a_combinacion\<close>.\<close>

definition colores_de_entrada :: "string \<Rightarrow> string list" where
  "colores_de_entrada entrada =
     (if CHR '','' \<in> set entrada
      then map (\<lambda>color. lower (strip color)) (split_sep CHR '','' entrada)
      else map (\<lambda>color. lower (strip color)) (split_espacios entrada))"

text \<open>\<open>convertir_entrada_a_combinacion\<close>: \<open>None\<close> after either error dialog.\<close>

definition convertir_entrada_a_combinacion :: "string \<Rightarrow> combinacion option" where
  "convertir_entrada_a_combinacion entrada =
     (let colores = colores_de_entrada entrada in
      if length colores \<noteq> 4 then None
      else if \<not> list_all (\<lambda>color. color \<in> set COLORES) colores then None
      else Some colores)"

section \<open>Auxiliary definitions\<close>

text \<open>A counter after the symbols of \<open>xs\<close> have been added to it.\<close>

definition sumados :: "contador \<Rightarrow> string list \<Rightarrow> contador" where
  "sumados k xs = (\<lambda>s. map_option (\<lambda>n. n + int (count_list xs s)) (k s))"

subsection \<open>Example states\<close>

text \<open>A knowledge base narrowed down to one candidate.\<close>

definition kb_un_candidato :: MastermindKB where
  "kb_un_candidato =
     \<lparr>todas_combinaciones = producto_colores,
      combinaciones_posibles = {|[''azul'', ''azul'', ''azul'', ''azul'']|}\<rparr>"

subsection \<open>A run that makes no progress\<close>

text \<open>
  The secret shares no colour with the opening probe. The source below answers the
  sampling of probes from the whole universe with twenty codes over azul, rojo and verde
  (positions 0, 1, 4, 6, ... of \<open>todas_combinaciones\<close>), and answers every other draw
  with 0.
\<close>

definition secreta_adversa :: combinacion where
  "secreta_adversa = [''blanco'', ''blanco'', ''blanco'', ''blanco'']"

definition sorteos_adversos :: "nat list" where
  "sorteos_adversos =
     [0, 0, 2, 3, 3, 5, 18, 18, 28, 28, 32, 32, 204, 204, 208, 208, 236, 236, 240, 240]"

definition fuente_adversa :: fuente where
  "fuente_adversa i = (if i mod 1020 < 20 then sorteos_adversos ! (i mod 1020) else 0)"

definition propuestas_adversas :: "combinacion list" where
  "propuestas_adversas =
     [[''azul'', ''azul'', ''azul'', ''azul''], [''azul'', ''azul'', ''azul'', ''rojo''],
      [''azul'', ''azul'', ''azul'', ''verde''], [''azul'', ''azul'', ''rojo'', ''azul''],
      [''azul'', ''azul'', ''rojo'', ''rojo''], [''azul'', ''azul'', ''rojo'', ''verde''],
      [''azul'', ''azul'', ''verde'', ''azul''], [''azul'', ''azul'', ''verde'', ''rojo''],
      [''azul'', ''rojo'', ''azul'', ''azul''], [''azul'', ''rojo'', ''azul'', ''rojo''],
      [''azul'', ''rojo'', ''rojo'', ''azul''], [''azul'', ''rojo'', ''rojo'', ''rojo''],
      [''rojo'', ''azul'', ''azul'', ''azul''], [''rojo'', ''azul'', ''azul'', ''rojo''],
      [''rojo'', ''azul'', ''rojo'', ''azul''], [''rojo'', ''azul'', ''rojo'', ''rojo''],
      [''rojo'', ''rojo'', ''azul'', ''azul''], [''rojo'', ''rojo'', ''azul'', ''rojo''],
      [''rojo'', ''rojo'', ''rojo'', ''azul''], [''rojo'', ''rojo'', ''rojo'', ''rojo'']]"

text \<open>The candidates left by the opening probe against that secret.\<close>

definition posibles_adversas :: "combinacion fset" where
  "posibles_adversas =
     fset_of_list (product_lists (replicate 4 [''blanco'', ''negro'', ''purpura'']))"

definition atascado :: "MastermindSolver \<times> fuente \<Rightarrow> bool" where
  "atascado st \<longleftrightarrow>
     todas_combinaciones (kb (fst st)) = producto_colores
     \<and> combinaciones_posibles (kb (fst st)) = posibles_adversas
     \<and> snd st = fuente_adversa"

section \<open>The scorer computes the reference score\<close>

lemma elemento_ok: "i < length t \<Longrightarrow> elemento t i = Inr (t ! i)"
  by (simp add: elemento_def)

lemma dom_contador_cero: "dom contador_cero = set COLORES"
  by (simp add: contador_cero_def dom_map_of_conv_image_fst image_image)

lemma contador_cero_Some: "s \<in> set COLORES \<Longrightarrow> contador_cero s = Some 0"
  unfolding contador_cero_def by (rule map_of_is_SomeI) (auto simp: COLORES_def)

lemma contador_cero_cases: "contador_cero s = (if s \<in> set COLORES then Some 0 else None)"
  using contador_cero_Some[of s] dom_contador_cero by (auto simp: domIff)


lemma dom_sumados: "dom (sumados k xs) = dom k"
  by (auto simp: sumados_def domIff)

lemma sumados_Nil: "sumados k [] = k"
  by (rule ext) (simp add: sumados_def option.map_ident)

lemma sumados_Cons: "k x = Some n \<Longrightarrow> sumados (k(x \<mapsto> n + 1)) xs = sumados k (x # xs)"
  by (rule ext) (auto simp: sumados_def)

lemma sumar_uno_ok: "x \<in> dom k \<Longrightarrow> \<exists>n. k x = Some n \<and> sumar_uno k x = Inr (k(x \<mapsto> n + 1))"
  by (auto simp: sumar_uno_def)

lemma recorrer_ok:
  assumes "\<forall>i\<in>set idx. i < length c1 \<and> i < length c2 \<and> c1 ! i \<in> set COLORES \<and> c2 ! i \<in> set COLORES"
    and "dom k1 = set COLORES" and "dom k2 = set COLORES"
  shows "recorrer_posiciones c1 c2 idx (p, k1, k2) =
           Inr (p + int (length (filter (\<lambda>i. c1 ! i = c2 ! i) idx)),
                sumados k1 (map (\<lambda>i. c1 ! i) (filter (\<lambda>i. c1 ! i \<noteq> c2 ! i) idx)),
                sumados k2 (map (\<lambda>i. c2 ! i) (filter (\<lambda>i. c1 ! i \<noteq> c2 ! i) idx)))"
  using assms
proof (induction idx arbitrary: p k1 k2)
  case Nil
  then show ?case by (simp add: sumados_Nil)
next
  case (Cons i idx)
  have i: "i < length c1" "i < length c2" "c1 ! i \<in> set COLORES" "c2 ! i \<in> set COLORES"
    using Cons.prems(1) by auto
  have rest: "\<forall>j\<in>set idx. j < length c1 \<and> j < length c2 \<and> c1 ! j \<in> set COLORES \<and> c2 ! j \<in> set COLORES"
    using Cons.prems(1) by auto
  show ?case
  proof (cases "c1 ! i = c2 ! i")
    case True
    then show ?thesis
      using Cons.IH[OF rest Cons.prems(2,3), of "p + 1"] i
      by (simp add: elemento_ok)
  next
    case False
    obtain n1 where n1: "k1 (c1 ! i) = Some n1" "sumar_uno k1 (c1 ! i) = Inr (k1(c1 ! i \<mapsto> n1 + 1))"
      using sumar_uno_ok[of "c1 ! i" k1] i Cons.prems(2) by auto
    obtain n2 where n2: "k2 (c2 ! i) = Some n2" "sumar_uno k2 (c2 ! i) = Inr (k2(c2 ! i \<mapsto> n2 + 1))"
      using sumar_uno_ok[of "c2 ! i" k2] i Cons.prems(3) by auto
    have d1: "dom (k1(c1 ! i \<mapsto> n1 + 1)) = set COLORES"
      using Cons.prems(2) i by auto
    have d2: "dom (k2(c2 ! i \<mapsto> n2 + 1)) = set COLORES"
      using Cons.prems(3) i by auto
    have step: "recorrer_posiciones c1 c2 (i # idx) (p, k1, k2) =
        recorrer_posiciones c1 c2 idx (p, k1(c1 ! i \<mapsto> n1 + 1), k2(c2 ! i \<mapsto> n2 + 1))"
      using i False n1(2) n2(2) by (simp add: elemento_ok)
    show ?thesis
      unfolding step Cons.IH[OF rest d1 d2]
        sumados_Cons[of k1 "c1 ! i" n1, OF n1(1)] sumados_Cons[of k2 "c2 ! i" n2, OF n2(1)]
      using False by simp
  qed
qed

lemma sumar_minimos_ok:
  assumes "\<forall>s\<in>set cs. k1 s = Some (f s) \<and> k2 s = Some (g s)"
  shows "sumar_minimos k1 k2 cs = Inr (\<Sum>s\<leftarrow>cs. min (f s) (g s))"
  using assms by (induction cs) (auto simp: leer_def)

lemma idx4: "[0, 1, 2, 3] = [0..<4]"
  by (simp add: upt_rec)

lemma es_codigo_nth: "es_codigo c \<Longrightarrow> i < 4 \<Longrightarrow> i < length c \<and> c ! i \<in> set COLORES"
  by (auto simp: es_codigo_def list_all_length)

lemma leftover_sym: "leftover t g = map (\<lambda>i. t ! i) (filter (\<lambda>i. g ! i \<noteq> t ! i) [0..<4])"
proof -
  have "(\<lambda>i. t ! i \<noteq> g ! i) = (\<lambda>i. g ! i \<noteq> t ! i)" by auto
  then show ?thesis unfolding leftover_def by simp
qed

lemma exact_matches_filter: "exact_matches g t = int (length (filter (\<lambda>i. g ! i = t ! i) [0..<4]))"
proof -
  have "{i \<in> {0..<4}. g ! i = t ! i} = {i. g ! i = t ! i} \<inter> set [0..<4]" by auto
  then show ?thesis
    unfolding exact_matches_def by (simp add: distinct_length_filter)
qed

lemma recorrer_codigos:
  assumes "es_codigo g" "es_codigo t"
  shows "recorrer_posiciones g t [0, 1, 2, 3] (0, contador_cero, contador_cero) =
           Inr (exact_matches g t, sumados contador_cero (leftover g t),
                sumados contador_cero (leftover t g))"
proof -
  have "\<forall>i\<in>set [0..<4]. i < length g \<and> i < length t \<and> g ! i \<in> set COLORES \<and> t ! i \<in> set COLORES"
    using es_codigo_nth[OF assms(1)] es_codigo_nth[OF assms(2)] by auto
  from recorrer_ok[OF this dom_contador_cero dom_contador_cero, of 0]
  show ?thesis
    unfolding idx4 exact_matches_filter leftover_sym[of t g] leftover_def[of g t] by simp
qed

lemma sumar_minimos_codigos:
  "sumar_minimos (sumados contador_cero xs) (sumados contador_cero ys) COLORES =
     Inr (\<Sum>s\<leftarrow>COLORES. int (min (count_list xs s) (count_list ys s)))"
proof -
  have "\<forall>s\<in>set COLORES. sumados contador_cero xs s = Some (int (count_list xs s))
          \<and> sumados contador_cero ys s = Some (int (count_list ys s))"
    by (simp add: sumados_def contador_cero_Some)
  from sumar_minimos_ok[OF this] show ?thesis by (simp add: of_nat_min)
qed

lemma evaluar_es_score:
  assumes "es_codigo g" "es_codigo t"
  shows "evaluar_combinacion g t = Inr (score g t)"
  unfolding evaluar_combinacion_def recorrer_codigos[OF assms]
  by (simp add: sumar_minimos_codigos score_def color_matches_def)

lemma coincide_es_score:
  assumes "es_codigo g" "es_codigo t"
  shows "coincide_feedback g t e c = Inr (score g t = (e, c))"
  unfolding coincide_feedback_def recorrer_codigos[OF assms]
  by (simp add: sumar_minimos_codigos score_def color_matches_def)

lemma sum_count_distinct:
  "distinct cs \<Longrightarrow> (\<Sum>s\<leftarrow>cs. count_list xs s) = length (filter (\<lambda>x. x \<in> set cs) xs)"
proof (induction cs)
  case Nil
  then show ?case by simp
next
  case (Cons a cs)
  have "count_list xs a + length (filter (\<lambda>x. x \<in> set cs) xs)
          = length (filter (\<lambda>x. x = a \<or> x \<in> set cs) xs)"
    using Cons.prems by (induction xs) auto
  then show ?case using Cons by simp
qed

lemma sum_list_int_map: "(\<Sum>s\<leftarrow>cs. int (f s)) = int (\<Sum>s\<leftarrow>cs. f s)"
  by (induction cs) auto

lemma distinct_COLORES: "distinct COLORES"
  by (simp add: COLORES_def)

lemma color_matches_le: "color_matches g t \<le> int (length (leftover g t))"
proof -
  have "(\<Sum>s\<leftarrow>COLORES. min (count_list (leftover g t) s) (count_list (leftover t g) s))
          \<le> (\<Sum>s\<leftarrow>COLORES. count_list (leftover g t) s)"
    by (rule sum_list_mono) simp
  also have "\<dots> \<le> length (leftover g t)"
    by (simp add: sum_count_distinct distinct_COLORES)
  finally show ?thesis
    unfolding color_matches_def sum_list_int_map by simp
qed

lemma exact_plus_leftover: "exact_matches g t + int (length (leftover g t)) = 4"
  using sum_length_filter_compl[of "\<lambda>i. g ! i = t ! i" "[0..<4]"]
  by (simp add: exact_matches_filter leftover_def)

lemma score_bounds:
  "0 \<le> exact_matches g t \<and> exact_matches g t \<le> 4 \<and> 0 \<le> color_matches g t
     \<and> color_matches g t \<le> 4 \<and> exact_matches g t + color_matches g t \<le> 4"
proof -
  have "0 \<le> color_matches g t"
    unfolding color_matches_def by (rule sum_list_nonneg) auto
  moreover have "0 \<le> exact_matches g t" by (simp add: exact_matches_def)
  ultimately show ?thesis
    using color_matches_le[of g t] exact_plus_leftover[of g t] by linarith
qed

text \<open>
  C1: for codes \<open>guess\<close> and \<open>target\<close> (length 4 over the six colours) the scorer
  returns, as exact matches, the number of positions where the two agree and, as colour
  matches, the sum over the colours of the smaller of the two occurrence counts among
  the positions that disagree; the consistency predicate of the filter accepts
  \<open>(guess, candidate, e, c)\<close> exactly when that score of \<open>(guess, candidate)\<close> is
  \<open>(e, c)\<close>; and the score of (azul, rojo, blanco, negro) against
  (negro, blanco, rojo, azul) is 0 exact and 4 colour.
\<close>

theorem evaluar_combinacion_es_score:
  assumes "es_codigo guess" and "es_codigo target"
  shows "evaluar_combinacion guess target
           = Inr (exact_matches guess target, color_matches guess target)
         \<and> coincide_feedback guess target e c
           = Inr ((exact_matches guess target, color_matches guess target) = (e, c))
         \<and> evaluar_combinacion [''azul'', ''rojo'', ''blanco'', ''negro'']
             [''negro'', ''blanco'', ''rojo'', ''azul''] = Inr (0, 4)"
proof -
  have "evaluar_combinacion [''azul'', ''rojo'', ''blanco'', ''negro'']
          [''negro'', ''blanco'', ''rojo'', ''azul''] = Inr (0, 4)"
    by (simp add: evaluar_combinacion_def contador_cero_def COLORES_def elemento_def
        sumar_uno_def leer_def)
  then show ?thesis
    using evaluar_es_score[OF assms] coincide_es_score[OF assms, of e c]
    by (simp add: score_def)
qed

theorem evaluar_combinacion_es_score_witness:
  "es_codigo [''azul'', ''azul'', ''rojo'', ''rojo'']
   \<and> es_codigo [''azul'', ''rojo'', ''azul'', ''azul'']
   \<and> evaluar_combinacion [''azul'', ''azul'', ''rojo'', ''rojo'']
        [''azul'', ''rojo'', ''azul'', ''azul''] = Inr (1, 2)
   \<and> coincide_feedback [''azul'', ''azul'', ''rojo'', ''rojo'']
        [''azul'', ''rojo'', ''azul'', ''azul''] 1 2 = Inr True
   \<and> exact_matches [''azul'', ''azul'', ''rojo'', ''rojo'']
        [''azul'', ''rojo'', ''azul'', ''azul''] = 1
   \<and> color_matches [''azul'', ''azul'', ''rojo'', ''rojo'']
        [''azul'', ''rojo'', ''azul'', ''azul''] = 2"
proof -
  have g: "es_codigo [''azul'', ''azul'', ''rojo'', ''rojo'']"
    by (simp add: es_codigo_def COLORES_def)
  have t: "es_codigo [''azul'', ''rojo'', ''azul'', ''azul'']"
    by (simp add: es_codigo_def COLORES_def)
  have v: "evaluar_combinacion [''azul'', ''azul'', ''rojo'', ''rojo'']
             [''azul'', ''rojo'', ''azul'', ''azul''] = Inr (1, 2)"
    by (simp add: evaluar_combinacion_def contador_cero_def COLORES_def elemento_def
        sumar_uno_def leer_def)
  show ?thesis
    using evaluar_combinacion_es_score[OF g t, of 1 2] g t v by simp
qed

text \<open>
  C7: for all codes \<open>a\<close> and \<open>b\<close> the scorer returns a pair
  \<open>(exact_matches, color_matches)\<close> with both components between 0 and 4 and with sum
  at most 4.
\<close>

theorem evaluar_combinacion_cotas:
  assumes "es_codigo a" and "es_codigo b"
  shows "\<exists>exact color. evaluar_combinacion a b = Inr (exact, color)
           \<and> 0 \<le> exact \<and> exact \<le> 4 \<and> 0 \<le> color \<and> color \<le> 4 \<and> exact + color \<le> 4"
  using evaluar_es_score[OF assms] score_bounds[of a b] by (simp add: score_def)

theorem evaluar_combinacion_cotas_witness:
  "es_codigo [''azul'', ''rojo'', ''blanco'', ''negro'']
   \<and> es_codigo [''negro'', ''blanco'', ''rojo'', ''azul'']
   \<and> (\<exists>exact color.
         evaluar_combinacion [''azul'', ''rojo'', ''blanco'', ''negro'']
           [''negro'', ''blanco'', ''rojo'', ''azul''] = Inr (exact, color)
         \<and> 0 \<le> exact \<and> exact \<le> 4 \<and> 0 \<le> color \<and> color \<le> 4 \<and> exact + color \<le> 4)"
proof -
  have a: "es_codigo [''azul'', ''rojo'', ''blanco'', ''negro'']"
    by (simp add: es_codigo_def COLORES_def)
  have b: "es_codigo [''negro'', ''blanco'', ''rojo'', ''azul'']"
    by (simp add: es_codigo_def COLORES_def)
  show ?thesis
    using evaluar_combinacion_cotas[OF a b] a b by simp
qed

end
